theory Spec2Isabelle
  imports Main
begin

section \<open>Values, exceptions and responses\<close>

text \<open>
  The handlers of \<^verbatim>\<open>src/api/addons.js\<close> and \<^verbatim>\<open>src/api/overlays.js\<close> read rows
  through the ORM, decorate them and answer with \<^verbatim>\<open>res.json\<close>; every handler body is
  one \<^verbatim>\<open>try\<close> block whose \<^verbatim>\<open>catch\<close> hands the error to \<^verbatim>\<open>dbErrResponse\<close>.
  A \<^verbatim>\<open>try\<close> block is modelled as a function into \<open>exn + 'a\<close> (\<open>Inl\<close> is a throw),
  the handler as the function that turns that result into a response.
\<close>

datatype jsval =
    JNull
  | JBool bool
  | JNum int
  | JStr string
  | JArr "jsval list"
  | JObj "(string \<times> jsval) list"

text \<open>
  The exceptions that can reach a \<^verbatim>\<open>catch\<close>: the repository's own \<^verbatim>\<open>NotFound\<close>,
  the \<^verbatim>\<open>SyntaxError\<close> of \<^verbatim>\<open>JSON.parse\<close>, the \<^verbatim>\<open>TypeError\<close> of a property
  read on \<^verbatim>\<open>null\<close>, the error of \<^verbatim>\<open>ksuid.parse\<close> on a malformed identifier, and a
  rejected ORM query.
\<close>

datatype exn =
    NotFound string
  | SyntaxError
  | TypeError
  | InvalidKsuid
  | PrismaError string

datatype 'a response =
    Json 'a
  | Json404 string
  | JsonFailure

text \<open>
  Modelled from the spec: \<^verbatim>\<open>dbErrResponse\<close> is imported from \<^verbatim>\<open>lib/db.js\<close>, which
  is not among the source files. The specification says that the single \<^verbatim>\<open>NotFound\<close>
  exception type is translated to an HTTP 404 JSON body by this shared responder and that
  all other database errors pass through the same responder for a generic failure response.
\<close>

fun dbErrResponse :: "exn \<Rightarrow> 'a response" where
  "dbErrResponse (NotFound msg) = Json404 msg"
| "dbErrResponse error = JsonFailure"

definition quoted :: "string \<Rightarrow> string" where
  "quoted s = CHR 0x27 # s @ [CHR 0x27]"


section \<open>Data model\<close>

record addon_row =
  addonId :: string
  slug :: string
  configSchema :: "string option"
  metadata :: "(string \<times> jsval) list"

record user_row =
  userId :: string
  profile :: "(string \<times> jsval) list"

record user_addon_row =
  ua_userId :: string
  ua_addonId :: string
  ua_overlayId :: string
  ua_configJSON :: string

text \<open>
  The store behind the ORM client \<^verbatim>\<open>db\<close>: one list of rows per model, in the order
  in which a query without \<^verbatim>\<open>orderBy\<close> returns them, and for each of the two models
  that the handlers query the message of the error with which its queries are rejected
  (\<open>None\<close> when they are answered).
\<close>

record database =
  twitchAddon :: "addon_row list"
  twitchUserAddons :: "user_addon_row list"
  twitchUser :: "user_row list"
  twitchAddon_fault :: "string option"
  twitchUserAddons_fault :: "string option"

record request =
  url :: string
  params_key :: string
  params_overlayId :: string
  cookie :: "string option"

text \<open>
  What the handlers import from outside the two files: \<^verbatim>\<open>config.get('overlayBase')\<close>,
  \<^verbatim>\<open>getAuthorizedUser(req, false)\<close> of \<^verbatim>\<open>lib/auth.js\<close> (\<open>None\<close> is \<^verbatim>\<open>null\<close>),
  the built-in \<^verbatim>\<open>JSON.parse\<close> (\<open>None\<close> when it throws) and
  \<^verbatim>\<open>ksuid.parse(id).timestamp\<close> (\<open>None\<close> when \<^verbatim>\<open>ksuid.parse\<close> throws).
\<close>

record externals =
  overlayBase :: string
  getAuthorizedUser :: "request \<Rightarrow> string option"
  JSON_parse :: "string \<Rightarrow> jsval option"
  ksuid_timestamp :: "string \<Rightarrow> int option"

text \<open>
  An addon object as a handler sends it: the columns of the row, \<^verbatim>\<open>configSchema\<close>
  replaced by the parsed value, and the fields the handlers add. A field that the object
  does not have is \<open>None\<close>.
\<close>

record addon_entry =
  entry_addonId :: string
  entry_slug :: string
  entry_configSchema :: "jsval option"
  entry_metadata :: "(string \<times> jsval) list"
  timestamp :: "int option"
  installed :: "bool option"
  config :: "jsval option"
  overlayUrl :: "string option"

record overlay_body =
  body_userId :: string
  body_addonId :: string
  body_overlayId :: string
  body_configJSON :: jsval
  body_addon :: addon_entry
  body_owner :: "user_row option"


section \<open>ORM queries\<close>

definition prisma_result :: "string option \<Rightarrow> 'a \<Rightarrow> exn + 'a" where
  "prisma_result fault rows =
     (case fault of Some msg \<Rightarrow> Inl (PrismaError msg) | None \<Rightarrow> Inr rows)"

definition twitchAddon_findMany :: "database \<Rightarrow> exn + addon_row list" where
  "twitchAddon_findMany db = prisma_result (twitchAddon_fault db) (twitchAddon db)"

definition twitchAddon_findFirst ::
    "database \<Rightarrow> (addon_row \<Rightarrow> bool) \<Rightarrow> exn + addon_row option" where
  "twitchAddon_findFirst db wh =
     prisma_result (twitchAddon_fault db) (find wh (twitchAddon db))"

definition twitchUserAddons_findMany ::
    "database \<Rightarrow> (user_addon_row \<Rightarrow> bool) \<Rightarrow> exn + user_addon_row list" where
  "twitchUserAddons_findMany db wh =
     prisma_result (twitchUserAddons_fault db) (filter wh (twitchUserAddons db))"

definition twitchUserAddons_findUnique ::
    "database \<Rightarrow> string \<Rightarrow> string \<Rightarrow> exn + user_addon_row option" where
  "twitchUserAddons_findUnique db uid aid =
     prisma_result (twitchUserAddons_fault db)
       (find (\<lambda>r. ua_userId r = uid \<and> ua_addonId r = aid) (twitchUserAddons db))"

text \<open>
  \<^verbatim>\<open>include: { addon: true, owner: true }\<close> attaches to each row the addon and the
  user that its foreign keys name (\<open>None\<close> is \<^verbatim>\<open>null\<close>).
\<close>

definition include_addon_owner ::
    "database \<Rightarrow> user_addon_row \<Rightarrow> user_addon_row \<times> addon_row option \<times> user_row option" where
  "include_addon_owner db r =
     (r, find (\<lambda>a. addonId a = ua_addonId r) (twitchAddon db),
         find (\<lambda>u. userId u = ua_userId r) (twitchUser db))"

definition twitchUserAddons_findMany_include ::
    "database \<Rightarrow> (user_addon_row \<Rightarrow> bool) \<Rightarrow>
       exn + (user_addon_row \<times> addon_row option \<times> user_row option) list" where
  "twitchUserAddons_findMany_include db wh =
     prisma_result (twitchUserAddons_fault db)
       (map (include_addon_owner db) (filter wh (twitchUserAddons db)))"


section \<open>Helpers of the handlers\<close>

definition parse_json :: "externals \<Rightarrow> string \<Rightarrow> exn + jsval" where
  "parse_json ext s = (case JSON_parse ext s of None \<Rightarrow> Inl SyntaxError | Some v \<Rightarrow> Inr v)"

text \<open>
  \<^verbatim>\<open>JSON.parse(x)\<close> on a column that may be \<^verbatim>\<open>undefined\<close>: the argument is converted
  to a string first, and \<^verbatim>\<open>undefined\<close> becomes the text \<^verbatim>\<open>undefined\<close>.
\<close>

definition parse_json_column :: "externals \<Rightarrow> string option \<Rightarrow> exn + jsval" where
  "parse_json_column ext col =
     (case col of None \<Rightarrow> parse_json ext ''undefined'' | Some s \<Rightarrow> parse_json ext s)"

definition overlay_url :: "externals \<Rightarrow> string \<Rightarrow> string" where
  "overlay_url ext overId = overlayBase ext @ ''/'' @ overId"

text \<open>\<^verbatim>\<open>result.forEach(f)\<close> where \<open>f\<close> may throw: the first throw ends the loop.\<close>

fun forEach :: "('a \<Rightarrow> exn + 'b) \<Rightarrow> 'a list \<Rightarrow> exn + 'b list" where
  "forEach f [] = Inr []"
| "forEach f (x # xs) =
     (case f x of
        Inl e \<Rightarrow> Inl e
      | Inr y \<Rightarrow> (case forEach f xs of Inl e \<Rightarrow> Inl e | Inr ys \<Rightarrow> Inr (y # ys)))"

text \<open>
  \<^verbatim>\<open>Array.prototype.sort(cmp)\<close>: a stable sort, here by insertion. An element stays
  in front of a later one unless the comparator is positive on the pair.
\<close>

fun sort_insert :: "('a \<Rightarrow> 'a \<Rightarrow> int) \<Rightarrow> 'a \<Rightarrow> 'a list \<Rightarrow> 'a list" where
  "sort_insert cmp x [] = [x]"
| "sort_insert cmp x (y # ys) =
     (if cmp x y \<le> 0 then x # y # ys else y # sort_insert cmp x ys)"

definition Array_sort :: "('a \<Rightarrow> 'a \<Rightarrow> int) \<Rightarrow> 'a list \<Rightarrow> 'a list" where
  "Array_sort cmp xs = foldr (sort_insert cmp) xs []"

text \<open>
  \<^verbatim>\<open>(a, b) => a.timestamp - b.timestamp\<close>. Without a timestamp the difference is
  \<^verbatim>\<open>NaN\<close>, which \<^verbatim>\<open>sort\<close> reads as \<open>0\<close>.
\<close>

definition by_timestamp :: "addon_entry \<Rightarrow> addon_entry \<Rightarrow> int" where
  "by_timestamp a b =
     (case (timestamp a, timestamp b) of (Some s, Some t) \<Rightarrow> s - t | _ \<Rightarrow> 0)"


text \<open>The number that the comparator reads from an entry.\<close>

definition stamp :: "addon_entry \<Rightarrow> int" where
  "stamp e = (case timestamp e of Some t \<Rightarrow> t | None \<Rightarrow> 0)"


section \<open>addons.js\<close>

definition fetchUserAddons ::
    "externals \<Rightarrow> database \<Rightarrow> request \<Rightarrow> exn + (string \<rightharpoonup> user_addon_row)" where
  "fetchUserAddons ext db req =
     (case getAuthorizedUser ext req of
        None \<Rightarrow> Inr Map.empty
      | Some uid \<Rightarrow>
          (case twitchUserAddons_findMany db (\<lambda>r. ua_userId r = uid) of
             Inl e \<Rightarrow> Inl e
           | Inr data \<Rightarrow>
               Inr (fold (\<lambda>addon result. result(ua_addonId addon \<mapsto> addon)) data Map.empty)))"

text \<open>The callback of \<^verbatim>\<open>result.forEach\<close> in \<^verbatim>\<open>getAddonList\<close>.\<close>

definition getAddonList_entry ::
    "externals \<Rightarrow> (string \<rightharpoonup> user_addon_row) \<Rightarrow> addon_row \<Rightarrow> exn + addon_entry" where
  "getAddonList_entry ext userAddons entry =
     (case ksuid_timestamp ext (addonId entry) of
        None \<Rightarrow> Inl InvalidKsuid
      | Some ts \<Rightarrow>
          (case (case userAddons (addonId entry) of
                   None \<Rightarrow> Inr (None, None)
                 | Some userInfo \<Rightarrow>
                     (case parse_json ext (ua_configJSON userInfo) of
                        Inl e \<Rightarrow> Inl e
                      | Inr cfg \<Rightarrow>
                          Inr (Some cfg,
                               if ua_overlayId userInfo \<noteq> ''''
                               then Some (overlay_url ext (ua_overlayId userInfo))
                               else None)))
           of
             Inl e \<Rightarrow> Inl e
           | Inr (cfg, ourl) \<Rightarrow>
               (case (case configSchema entry of
                        None \<Rightarrow> Inr None
                      | Some s \<Rightarrow>
                          (case parse_json ext s of Inl e \<Rightarrow> Inl e | Inr v \<Rightarrow> Inr (Some v)))
                of
                  Inl e \<Rightarrow> Inl e
                | Inr schema \<Rightarrow>
                    Inr \<lparr> entry_addonId = addonId entry,
                          entry_slug = slug entry,
                          entry_configSchema = schema,
                          entry_metadata = metadata entry,
                          timestamp = Some ts,
                          installed = Some (userAddons (addonId entry) \<noteq> None),
                          config = cfg,
                          overlayUrl = ourl \<rparr>)))"

definition getAddonList_try ::
    "externals \<Rightarrow> database \<Rightarrow> request \<Rightarrow> exn + addon_entry list" where
  "getAddonList_try ext db req =
     (case twitchAddon_findMany db of
        Inl e \<Rightarrow> Inl e
      | Inr result \<Rightarrow>
          (case fetchUserAddons ext db req of
             Inl e \<Rightarrow> Inl e
           | Inr userAddons \<Rightarrow>
               (case forEach (getAddonList_entry ext userAddons) result of
                  Inl e \<Rightarrow> Inl e
                | Inr entries \<Rightarrow> Inr (Array_sort by_timestamp entries))))"

definition getAddonList ::
    "externals \<Rightarrow> database \<Rightarrow> request \<Rightarrow> addon_entry list response" where
  "getAddonList ext db req =
     (case getAddonList_try ext db req of
        Inl error \<Rightarrow> dbErrResponse error
      | Inr result \<Rightarrow> Json result)"

definition getAddonById_try :: "externals \<Rightarrow> database \<Rightarrow> request \<Rightarrow> exn + addon_entry" where
  "getAddonById_try ext db req =
     (let userId = getAuthorizedUser ext req in
      case twitchAddon_findFirst db
             (\<lambda>a. slug a = params_key req \<or> addonId a = params_key req) of
        Inl e \<Rightarrow> Inl e
      | Inr None \<Rightarrow> Inl (NotFound (''no such addon '' @ quoted (params_key req)))
      | Inr (Some body) \<Rightarrow>
          (case parse_json_column ext (configSchema body) of
             Inl e \<Rightarrow> Inl e
           | Inr schema \<Rightarrow>
               (case (case userId of
                        None \<Rightarrow> Inr None
                      | Some uid \<Rightarrow> twitchUserAddons_findUnique db uid (addonId body)) of
                  Inl e \<Rightarrow> Inl e
                | Inr None \<Rightarrow>
                    Inr \<lparr> entry_addonId = addonId body,
                          entry_slug = slug body,
                          entry_configSchema = Some schema,
                          entry_metadata = metadata body,
                          timestamp = None,
                          installed = Some False,
                          config = None,
                          overlayUrl = None \<rparr>
                | Inr (Some userConfig) \<Rightarrow>
                    (let overId = ua_overlayId userConfig in
                     case parse_json ext (ua_configJSON userConfig) of
                       Inl e \<Rightarrow> Inl e
                     | Inr cfg \<Rightarrow>
                         Inr \<lparr> entry_addonId = addonId body,
                               entry_slug = slug body,
                               entry_configSchema = Some schema,
                               entry_metadata = metadata body,
                               timestamp = None,
                               installed = Some True,
                               config = Some cfg,
                               overlayUrl =
                                 Some (if overId = '''' then '''' else overlay_url ext overId) \<rparr>))))"

definition getAddonById :: "externals \<Rightarrow> database \<Rightarrow> request \<Rightarrow> addon_entry response" where
  "getAddonById ext db req =
     (case getAddonById_try ext db req of
        Inl error \<Rightarrow> dbErrResponse error
      | Inr body \<Rightarrow> Json body)"


section \<open>overlays.js\<close>

definition getOverlayInfo_try :: "externals \<Rightarrow> database \<Rightarrow> request \<Rightarrow> exn + overlay_body" where
  "getOverlayInfo_try ext db req =
     (case twitchUserAddons_findMany_include db
             (\<lambda>r. ua_overlayId r = params_overlayId req) of
        Inl e \<Rightarrow> Inl e
      | Inr data \<Rightarrow>
          (case data of
             [(row, addon, owner)] \<Rightarrow>
               (case addon of
                  None \<Rightarrow> Inl TypeError
                | Some a \<Rightarrow>
                    (case parse_json_column ext (configSchema a) of
                       Inl e \<Rightarrow> Inl e
                     | Inr schema \<Rightarrow>
                         (case parse_json ext (ua_configJSON row) of
                            Inl e \<Rightarrow> Inl e
                          | Inr cfg \<Rightarrow>
                              Inr \<lparr> body_userId = ua_userId row,
                                    body_addonId = ua_addonId row,
                                    body_overlayId = ua_overlayId row,
                                    body_configJSON = cfg,
                                    body_addon =
                                      \<lparr> entry_addonId = addonId a,
                                        entry_slug = slug a,
                                        entry_configSchema = Some schema,
                                        entry_metadata = metadata a,
                                        timestamp = None,
                                        installed = None,
                                        config = None,
                                        overlayUrl = None \<rparr>,
                                    body_owner = owner \<rparr>)))
           | _ \<Rightarrow> Inl (NotFound (''no such overlay '' @ quoted (params_overlayId req)))))"

definition getOverlayInfo :: "externals \<Rightarrow> database \<Rightarrow> request \<Rightarrow> overlay_body response" where
  "getOverlayInfo ext db req =
     (case getOverlayInfo_try ext db req of
        Inl error \<Rightarrow> dbErrResponse error
      | Inr body \<Rightarrow> Json body)"

definition reportInvalidAPI_try :: "database \<Rightarrow> request \<Rightarrow> exn + 'a" where
  "reportInvalidAPI_try db req = Inl (NotFound ''invalid API endpoint'')"

definition reportInvalidAPI :: "externals \<Rightarrow> database \<Rightarrow> request \<Rightarrow> 'a response" where
  "reportInvalidAPI ext db req =
     (case reportInvalidAPI_try db req of
        Inl error \<Rightarrow> dbErrResponse error
      | Inr body \<Rightarrow> Json body)"


section \<open>Routes\<close>

text \<open>
  \<^verbatim>\<open>app.get(path, handler)\<close> appends a route; a request goes to the first route whose
  path matches. A path is matched segment by segment, a trailing slash is optional, and a
  parameter \<^verbatim>\<open>:name\<close> takes one non-empty segment, which the handler then reads as
  \<^verbatim>\<open>req.params.name\<close>.
\<close>

datatype segment = Lit string | Param string

fun split_on :: "char \<Rightarrow> string \<Rightarrow> string list" where
  "split_on c [] = [[]]"
| "split_on c (x # xs) =
     (if x = c then [] # split_on c xs
      else (case split_on c xs of [] \<Rightarrow> [[x]] | w # ws \<Rightarrow> (x # w) # ws))"

definition path_segments :: "string \<Rightarrow> string list option" where
  "path_segments u =
     (case split_on CHR ''/'' u of
        [] # segs \<Rightarrow> Some (if segs \<noteq> [] \<and> last segs = [] then butlast segs else segs)
      | _ \<Rightarrow> None)"

definition set_param :: "string \<Rightarrow> string \<Rightarrow> request \<Rightarrow> request" where
  "set_param name v req =
     (if name = ''overlayId'' then req\<lparr>params_overlayId := v\<rparr>
      else if name = ''key'' then req\<lparr>params_key := v\<rparr>
      else req)"

fun match_route :: "segment list \<Rightarrow> string list \<Rightarrow> request \<Rightarrow> request option" where
  "match_route [] [] req = Some req"
| "match_route (Lit s # ps) (x # xs) req = (if x = s then match_route ps xs req else None)"
| "match_route (Param n # ps) (x # xs) req =
     (if x = [] then None else match_route ps xs (set_param n x req))"
| "match_route _ _ req = None"

type_synonym 'a route = "segment list \<times> (externals \<Rightarrow> database \<Rightarrow> request \<Rightarrow> 'a response)"

fun dispatch ::
    "'a route list \<Rightarrow> externals \<Rightarrow> database \<Rightarrow> request \<Rightarrow> 'a response option" where
  "dispatch [] ext db req = None"
| "dispatch ((pat, handler) # routes) ext db req =
     (case path_segments (url req) of
        None \<Rightarrow> None
      | Some segs \<Rightarrow>
          (case match_route pat segs req of
             Some req' \<Rightarrow> Some (handler ext db req')
           | None \<Rightarrow> dispatch routes ext db req))"

definition addOverlayAPIs :: "overlay_body route list \<Rightarrow> overlay_body route list" where
  "addOverlayAPIs app =
     app @ [([Lit ''api'', Lit ''v1'', Lit ''overlay''], reportInvalidAPI),
            ([Lit ''api'', Lit ''v1'', Lit ''overlay'', Param ''overlayId''], getOverlayInfo)]"


section \<open>Sample data\<close>

text \<open>
  A small installation on which the theorems below are instantiated: two addons, of which
  the second was created first; a user \<open>u1\<close> who installed both, the second without an
  overlay; a user \<open>u2\<close> whose two rows share one overlay identifier. The sample
  \<^verbatim>\<open>getAuthorizedUser\<close> reads the user from the cookie.
\<close>

definition sample_ext :: externals where
  "sample_ext =
     \<lparr> overlayBase = ''https://host/overlay'',
       getAuthorizedUser = cookie,
       JSON_parse =
         (\<lambda>s. if s = ''{}'' then Some (JObj [])
              else if s = ''[]'' then Some (JArr [])
              else None),
       ksuid_timestamp =
         (\<lambda>s. if s = ''A'' then Some 20 else if s = ''B'' then Some 10 else None) \<rparr>"

definition sample_db :: database where
  "sample_db =
     \<lparr> twitchAddon =
         [\<lparr> addonId = ''A'', slug = ''alpha'', configSchema = Some ''[]'', metadata = [] \<rparr>,
          \<lparr> addonId = ''B'', slug = ''beta'', configSchema = Some ''[]'', metadata = [] \<rparr>],
       twitchUserAddons =
         [\<lparr> ua_userId = ''u1'', ua_addonId = ''A'', ua_overlayId = ''ov1'',
            ua_configJSON = ''{}'' \<rparr>,
          \<lparr> ua_userId = ''u1'', ua_addonId = ''B'', ua_overlayId = '''',
            ua_configJSON = ''{}'' \<rparr>,
          \<lparr> ua_userId = ''u2'', ua_addonId = ''A'', ua_overlayId = ''dup'',
            ua_configJSON = ''{}'' \<rparr>,
          \<lparr> ua_userId = ''u2'', ua_addonId = ''B'', ua_overlayId = ''dup'',
            ua_configJSON = ''{}'' \<rparr>],
       twitchUser =
         [\<lparr> userId = ''u1'', profile = [] \<rparr>, \<lparr> userId = ''u2'', profile = [] \<rparr>],
       twitchAddon_fault = None,
       twitchUserAddons_fault = None \<rparr>"

definition sample_req :: "string \<Rightarrow> string \<Rightarrow> string option \<Rightarrow> request" where
  "sample_req u p c = \<lparr> url = u, params_key = p, params_overlayId = p, cookie = c \<rparr>"

lemmas sample_defs = sample_ext_def sample_db_def sample_req_def

lemmas query_defs =
  prisma_result_def twitchAddon_findMany_def twitchAddon_findFirst_def
  twitchUserAddons_findMany_def twitchUserAddons_findUnique_def
  twitchUserAddons_findMany_include_def include_addon_owner_def

lemmas handler_defs =
  getOverlayInfo_def getOverlayInfo_try_def getAddonList_def getAddonList_try_def
  getAddonById_def getAddonById_try_def fetchUserAddons_def getAddonList_entry_def
  parse_json_def parse_json_column_def overlay_url_def Array_sort_def by_timestamp_def


section \<open>What a response says about the \<^verbatim>\<open>try\<close> block\<close>

lemma dbErrResponse_not_Json [simp]: "dbErrResponse e \<noteq> Json b"
  by (cases e) simp_all

lemma dbErrResponse_404_iff: "dbErrResponse e = Json404 m \<longleftrightarrow> e = NotFound m"
  by (cases e) simp_all

lemma getOverlayInfo_Json_iff:
  "getOverlayInfo ext db req = Json body \<longleftrightarrow> getOverlayInfo_try ext db req = Inr body"
  by (simp add: getOverlayInfo_def split: sum.splits)

lemma getAddonList_Json_iff:
  "getAddonList ext db req = Json entries \<longleftrightarrow> getAddonList_try ext db req = Inr entries"
  by (simp add: getAddonList_def split: sum.splits)

lemma getAddonById_Json_iff:
  "getAddonById ext db req = Json body \<longleftrightarrow> getAddonById_try ext db req = Inr body"
  by (simp add: getAddonById_def split: sum.splits)

lemma getAddonById_404_iff:
  "getAddonById ext db req = Json404 m \<longleftrightarrow> getAddonById_try ext db req = Inl (NotFound m)"
  by (simp add: getAddonById_def dbErrResponse_404_iff split: sum.splits)


section \<open>The overlay lookup\<close>

lemma getOverlayInfo_try_Inr:
  "getOverlayInfo_try ext db req = Inr body \<Longrightarrow>
     twitchUserAddons_fault db = None \<and>
     (\<exists>row. filter (\<lambda>r. ua_overlayId r = params_overlayId req) (twitchUserAddons db) = [row])"
  by (auto simp: getOverlayInfo_try_def twitchUserAddons_findMany_include_def prisma_result_def
        map_eq_Cons_conv
      split: option.splits list.splits sum.splits prod.splits)

lemma getOverlayInfo_try_miss:
  assumes "twitchUserAddons_fault db = None"
    and "length (filter (\<lambda>r. ua_overlayId r = params_overlayId req) (twitchUserAddons db)) \<noteq> 1"
  shows "getOverlayInfo_try ext db req =
           Inl (NotFound (''no such overlay '' @ quoted (params_overlayId req)))"
proof (cases "filter (\<lambda>r. ua_overlayId r = params_overlayId req) (twitchUserAddons db)")
  case Nil
  with assms(1) show ?thesis
    by (simp add: getOverlayInfo_try_def twitchUserAddons_findMany_include_def prisma_result_def)
next
  case (Cons r rs)
  with assms(2) obtain r' rs' where "rs = r' # rs'" by (cases rs) auto
  with Cons assms(1) show ?thesis
    by (simp add: getOverlayInfo_try_def twitchUserAddons_findMany_include_def prisma_result_def
          include_addon_owner_def)
qed

text \<open>
  C1. When the query for the rows with the requested overlay identifier is answered and the
  number of matching rows is not exactly one (none, or more than one), the overlay handler
  throws \<^verbatim>\<open>NotFound\<close> and the response is the 404 JSON body; and whenever the handler
  answers with a successful JSON body, exactly one row matches.
\<close>

theorem getOverlayInfo_404_unless_one:
  "(twitchUserAddons_fault db = None \<and>
    length (filter (\<lambda>r. ua_overlayId r = params_overlayId req) (twitchUserAddons db)) \<noteq> 1
      \<longrightarrow> getOverlayInfo_try ext db req =
            Inl (NotFound (''no such overlay '' @ quoted (params_overlayId req))) \<and>
          getOverlayInfo ext db req =
            Json404 (''no such overlay '' @ quoted (params_overlayId req)))
   \<and> (\<forall>body. getOverlayInfo ext db req = Json body
      \<longrightarrow> length (filter (\<lambda>r. ua_overlayId r = params_overlayId req) (twitchUserAddons db)) = 1)"
proof (intro conjI impI allI)
  assume a: "twitchUserAddons_fault db = None \<and>
    length (filter (\<lambda>r. ua_overlayId r = params_overlayId req) (twitchUserAddons db)) \<noteq> 1"
  then show "getOverlayInfo_try ext db req =
            Inl (NotFound (''no such overlay '' @ quoted (params_overlayId req)))"
    by (simp add: getOverlayInfo_try_miss)
  from a show "getOverlayInfo ext db req =
            Json404 (''no such overlay '' @ quoted (params_overlayId req))"
    by (simp add: getOverlayInfo_def getOverlayInfo_try_miss)
next
  fix body
  assume "getOverlayInfo ext db req = Json body"
  then have "getOverlayInfo_try ext db req = Inr body"
    by (simp add: getOverlayInfo_Json_iff)
  from getOverlayInfo_try_Inr [OF this]
  show "length (filter (\<lambda>r. ua_overlayId r = params_overlayId req) (twitchUserAddons db)) = 1"
    by auto
qed


theorem getOverlayInfo_404_unless_one_witness:
  "getOverlayInfo sample_ext sample_db (sample_req ''/api/v1/overlay/dup'' ''dup'' None) =
     Json404 (''no such overlay '' @ quoted ''dup'')
   \<and> getOverlayInfo sample_ext sample_db (sample_req ''/api/v1/overlay/none'' ''none'' None) =
     Json404 (''no such overlay '' @ quoted ''none'')
   \<and> (\<exists>body. getOverlayInfo sample_ext sample_db
                (sample_req ''/api/v1/overlay/ov1'' ''ov1'' None) = Json body)
   \<and> length (filter (\<lambda>r. ua_overlayId r = ''ov1'') (twitchUserAddons sample_db)) = 1"
proof -
  have two: "twitchUserAddons_fault sample_db = None \<and>
      length (filter (\<lambda>r. ua_overlayId r =
          params_overlayId (sample_req ''/api/v1/overlay/dup'' ''dup'' None))
        (twitchUserAddons sample_db)) \<noteq> 1"
    by (simp add: sample_defs)
  have zero: "twitchUserAddons_fault sample_db = None \<and>
      length (filter (\<lambda>r. ua_overlayId r =
          params_overlayId (sample_req ''/api/v1/overlay/none'' ''none'' None))
        (twitchUserAddons sample_db)) \<noteq> 1"
    by (simp add: sample_defs)
  have one: "getOverlayInfo sample_ext sample_db
        (sample_req ''/api/v1/overlay/ov1'' ''ov1'' None) =
      Json \<lparr> body_userId = ''u1'', body_addonId = ''A'', body_overlayId = ''ov1'',
             body_configJSON = JObj [],
             body_addon = \<lparr> entry_addonId = ''A'', entry_slug = ''alpha'',
               entry_configSchema = Some (JArr []), entry_metadata = [], timestamp = None,
               installed = None, config = None, overlayUrl = None \<rparr>,
             body_owner = Some \<lparr> userId = ''u1'', profile = [] \<rparr> \<rparr>"
    by (simp add: handler_defs query_defs sample_defs)
  have p: "params_overlayId (sample_req u p c) = p" for u p c
    by (simp add: sample_req_def)
  from getOverlayInfo_404_unless_one
         [of sample_db "sample_req ''/api/v1/overlay/dup'' ''dup'' None" sample_ext]
       getOverlayInfo_404_unless_one
         [of sample_db "sample_req ''/api/v1/overlay/none'' ''none'' None" sample_ext]
       getOverlayInfo_404_unless_one
         [of sample_db "sample_req ''/api/v1/overlay/ov1'' ''ov1'' None" sample_ext]
       two zero one
  show ?thesis by (simp add: p)
qed


section \<open>The addon list\<close>

lemma forEach_Inr:
  "forEach f xs = Inr ys \<Longrightarrow> list_all2 (\<lambda>x y. f x = Inr y) xs ys"
  by (induction xs arbitrary: ys) (auto split: sum.splits)

lemma forEach_member:
  assumes "forEach f xs = Inr ys" and "y \<in> set ys"
  shows "\<exists>x\<in>set xs. f x = Inr y"
  using assms
  by (induction xs arbitrary: ys) (auto split: sum.splits)

lemma set_sort_insert: "set (sort_insert cmp x xs) = insert x (set xs)"
  by (induction xs) auto

lemma set_Array_sort: "set (Array_sort cmp xs) = set xs"
  by (induction xs) (simp_all add: Array_sort_def set_sort_insert)

lemma length_sort_insert: "length (sort_insert cmp x xs) = Suc (length xs)"
  by (induction xs) auto

lemma length_Array_sort: "length (Array_sort cmp xs) = length xs"
  by (induction xs) (simp_all add: Array_sort_def length_sort_insert)

lemma by_timestamp_stamp:
  "timestamp a \<noteq> None \<Longrightarrow> timestamp b \<noteq> None \<Longrightarrow> by_timestamp a b = stamp a - stamp b"
  by (auto simp: by_timestamp_def stamp_def)

lemma sorted_sort_insert:
  assumes "timestamp x \<noteq> None" and "\<forall>e\<in>set xs. timestamp e \<noteq> None"
    and "sorted (map stamp xs)"
  shows "sorted (map stamp (sort_insert by_timestamp x xs))"
  using assms
proof (induction xs)
  case Nil
  then show ?case by simp
next
  case (Cons y ys)
  then show ?case
    by (auto simp: by_timestamp_stamp set_sort_insert)
qed

lemma sorted_Array_sort:
  "\<forall>e\<in>set xs. timestamp e \<noteq> None \<Longrightarrow> sorted (map stamp (Array_sort by_timestamp xs))"
proof (induction xs)
  case Nil
  then show ?case by (simp add: Array_sort_def)
next
  case (Cons x xs)
  then have "sorted (map stamp (Array_sort by_timestamp xs))" by simp
  moreover have "\<forall>e\<in>set (Array_sort by_timestamp xs). timestamp e \<noteq> None"
    using Cons.prems by (simp add: set_Array_sort)
  ultimately have "sorted (map stamp (sort_insert by_timestamp x (Array_sort by_timestamp xs)))"
    using Cons.prems by (intro sorted_sort_insert) simp_all
  then show ?case by (simp add: Array_sort_def)
qed

lemma getAddonList_entry_Inr:
  assumes "getAddonList_entry ext userAddons row = Inr e"
  shows "entry_addonId e = addonId row" 
    and "entry_slug e = slug row"
    and "entry_metadata e = metadata row"
    and "timestamp e = ksuid_timestamp ext (addonId row)"
    and "timestamp e \<noteq> None"
    and "installed e = Some (userAddons (addonId row) \<noteq> None)"
    and "userAddons (addonId row) = None \<Longrightarrow> config e = None \<and> overlayUrl e = None"
    and "userAddons (addonId row) = Some r \<Longrightarrow>
           JSON_parse ext (ua_configJSON r) = config e \<and> config e \<noteq> None \<and>
           overlayUrl e = (if ua_overlayId r \<noteq> '''' then Some (overlayBase ext @ ''/'' @ ua_overlayId r) else None)"
  using assms
  by (auto simp: getAddonList_entry_def parse_json_def overlay_url_def
           split: option.splits sum.splits prod.splits if_splits)

lemma getAddonList_try_Inr:
  assumes "getAddonList_try ext db req = Inr entries"
  obtains userAddons ys where "twitchAddon_fault db = None"
    and "fetchUserAddons ext db req = Inr userAddons"
    and "forEach (getAddonList_entry ext userAddons) (twitchAddon db) = Inr ys"
    and "entries = Array_sort by_timestamp ys"
  using assms
  by (auto simp: getAddonList_try_def twitchAddon_findMany_def prisma_result_def
           split: option.splits sum.splits)

lemma getAddonList_member:
  assumes "getAddonList_try ext db req = Inr entries" and "e \<in> set entries"
  obtains userAddons row where "fetchUserAddons ext db req = Inr userAddons"
    and "row \<in> set (twitchAddon db)"
    and "getAddonList_entry ext userAddons row = Inr e"
proof -
  from assms(1) obtain userAddons ys where
    f: "fetchUserAddons ext db req = Inr userAddons"
    and ys: "forEach (getAddonList_entry ext userAddons) (twitchAddon db) = Inr ys"
    and s: "entries = Array_sort by_timestamp ys"
    by (rule getAddonList_try_Inr)
  from assms(2) s have "e \<in> set ys" by (simp add: set_Array_sort)
  from forEach_member [OF ys this] obtain row where
    "row \<in> set (twitchAddon db)" "getAddonList_entry ext userAddons row = Inr e" by blast
  with f that show thesis by blast
qed

lemma find_app:
  "find P (xs @ ys) = (case find P xs of Some x \<Rightarrow> Some x | None \<Rightarrow> find P ys)"
  by (induction xs) auto

lemma fold_userAddons:
  "fold (\<lambda>addon result. result(ua_addonId addon \<mapsto> addon)) data m a =
     (case find (\<lambda>r. ua_addonId r = a) (rev data) of Some r \<Rightarrow> Some r | None \<Rightarrow> m a)"
  by (induction data arbitrary: m) (auto simp: find_app split: option.splits)

lemma fetchUserAddons_anonymous:
  "getAuthorizedUser ext req = None \<Longrightarrow> fetchUserAddons ext db req = Inr Map.empty"
  by (simp add: fetchUserAddons_def)

lemma fetchUserAddons_user:
  assumes "getAuthorizedUser ext req = Some uid" and "fetchUserAddons ext db req = Inr userAddons"
  shows "userAddons a =
           find (\<lambda>r. ua_addonId r = a) (rev (filter (\<lambda>r. ua_userId r = uid) (twitchUserAddons db)))"
  using assms
  by (auto simp: fetchUserAddons_def twitchUserAddons_findMany_def prisma_result_def fold_userAddons
           split: option.splits)


section \<open>The addon lookup\<close>

lemma getAddonById_try_Inr:
  assumes "getAddonById_try ext db req = Inr body"
  obtains a schema where "twitchAddon_fault db = None"
    and "find (\<lambda>a. slug a = params_key req \<or> addonId a = params_key req) (twitchAddon db) = Some a"
    and "entry_addonId body = addonId a" and "entry_slug body = slug a"
    and "entry_metadata body = metadata a"
    and "parse_json_column ext (configSchema a) = Inr schema"
    and "entry_configSchema body = Some schema"
    and "timestamp body = None"
  using assms
  by (auto simp: getAddonById_try_def twitchAddon_findFirst_def prisma_result_def Let_def
           split: option.splits sum.splits)

lemma getAddonById_try_anonymous:
  assumes "getAddonById_try ext db req = Inr body" and "getAuthorizedUser ext req = None"
  shows "installed body = Some False \<and> config body = None \<and> overlayUrl body = None"
  using assms
  by (auto simp: getAddonById_try_def twitchAddon_findFirst_def prisma_result_def Let_def
           split: option.splits sum.splits)

lemma getAddonById_try_user:
  assumes "getAddonById_try ext db req = Inr body" and "getAuthorizedUser ext req = Some uid"
  shows "case find (\<lambda>r. ua_userId r = uid \<and> ua_addonId r = entry_addonId body)
                (twitchUserAddons db) of
           None \<Rightarrow> installed body = Some False \<and> config body = None \<and> overlayUrl body = None
         | Some r \<Rightarrow>
             installed body = Some True \<and> config body = JSON_parse ext (ua_configJSON r) \<and>
             config body \<noteq> None \<and>
             overlayUrl body =
               Some (if ua_overlayId r = '''' then '''' else overlayBase ext @ ''/'' @ ua_overlayId r)"
  using assms
  by (auto simp: getAddonById_try_def twitchAddon_findFirst_def twitchUserAddons_findUnique_def
           prisma_result_def parse_json_def overlay_url_def Let_def
           split: option.splits sum.splits)

lemma getAddonById_try_NotFound_iff:
  assumes "twitchAddon_fault db = None"
  shows "getAddonById_try ext db req = Inl (NotFound m) \<longleftrightarrow>
           find (\<lambda>a. slug a = params_key req \<or> addonId a = params_key req) (twitchAddon db) = None \<and>
           m = ''no such addon '' @ quoted (params_key req)"
  using assms
  by (auto simp: getAddonById_try_def twitchAddon_findFirst_def twitchUserAddons_findUnique_def
           prisma_result_def parse_json_def parse_json_column_def Let_def
           split: option.splits sum.splits)


section \<open>Order and timestamps of the addon list\<close>

lemma getAddonList_length:
  assumes "getAddonList ext db req = Json entries"
  shows "length entries = length (twitchAddon db)"
proof -
  from assms have "getAddonList_try ext db req = Inr entries"
    by (simp add: getAddonList_Json_iff)
  then obtain userAddons ys where
    ys: "forEach (getAddonList_entry ext userAddons) (twitchAddon db) = Inr ys"
    and s: "entries = Array_sort by_timestamp ys"
    by (rule getAddonList_try_Inr)
  from forEach_Inr [OF ys] have "length (twitchAddon db) = length ys"
    by (rule list_all2_lengthD)
  with s show ?thesis by (simp add: length_Array_sort)
qed

lemma getAddonList_stamps:
  assumes "getAddonList_try ext db req = Inr entries" and "e \<in> set entries"
  shows "timestamp e = ksuid_timestamp ext (entry_addonId e)" and "timestamp e \<noteq> None"
proof -
  from assms obtain userAddons row where
    "getAddonList_entry ext userAddons row = Inr e"
    by (rule getAddonList_member)
  from getAddonList_entry_Inr(1,4,5) [OF this]
  show "timestamp e = ksuid_timestamp ext (entry_addonId e)" and "timestamp e \<noteq> None"
    by simp_all
qed

lemma getAddonList_sorted_stamps:
  assumes "getAddonList_try ext db req = Inr entries"
  shows "sorted (map stamp entries)"
proof -
  from assms obtain userAddons ys where
    ys: "forEach (getAddonList_entry ext userAddons) (twitchAddon db) = Inr ys"
    and s: "entries = Array_sort by_timestamp ys"
    by (rule getAddonList_try_Inr)
  have "\<forall>e\<in>set ys. timestamp e \<noteq> None"
  proof
    fix e assume "e \<in> set ys"
    from forEach_member [OF ys this] obtain row where
      "getAddonList_entry ext userAddons row = Inr e" by blast
    from getAddonList_entry_Inr(5) [OF this] show "timestamp e \<noteq> None" .
  qed
  with s show ?thesis by (simp add: sorted_Array_sort)
qed

text \<open>
  C3. In the array that the addon list answers with, every entry carries the timestamp
  that \<^verbatim>\<open>ksuid\<close> parses out of its \<^verbatim>\<open>addonId\<close>, and of two consecutive entries the
  first one's timestamp is less than or equal to the second one's.
\<close>

theorem getAddonList_sorted_by_timestamp:
  assumes "getAddonList ext db req = Json entries" and "Suc i < length entries"
  shows "\<exists>s t. ksuid_timestamp ext (entry_addonId (entries ! i)) = Some s \<and>
               timestamp (entries ! i) = Some s \<and>
               ksuid_timestamp ext (entry_addonId (entries ! Suc i)) = Some t \<and>
               timestamp (entries ! Suc i) = Some t \<and>
               s \<le> t"
proof -
  from assms(1) have tr: "getAddonList_try ext db req = Inr entries"
    by (simp add: getAddonList_Json_iff)
  from assms(2) have mem: "entries ! i \<in> set entries" "entries ! Suc i \<in> set entries"
    by simp_all
  from getAddonList_stamps [OF tr mem(1)] obtain s where
    s: "timestamp (entries ! i) = Some s" "ksuid_timestamp ext (entry_addonId (entries ! i)) = Some s"
    by (cases "timestamp (entries ! i)") auto
  from getAddonList_stamps [OF tr mem(2)] obtain t where
    t: "timestamp (entries ! Suc i) = Some t"
       "ksuid_timestamp ext (entry_addonId (entries ! Suc i)) = Some t"
    by (cases "timestamp (entries ! Suc i)") auto
  from getAddonList_sorted_stamps [OF tr] assms(2)
  have "map stamp entries ! i \<le> map stamp entries ! Suc i"
    by (intro sorted_nth_mono) simp_all
  with assms(2) s(1) t(1) have "s \<le> t" by (simp add: stamp_def)
  with s t show ?thesis by simp
qed

theorem getAddonList_sorted_by_timestamp_witness:
  "getAddonList sample_ext sample_db (sample_req ''/api/v1/addons'' '''' None) =
     Json [\<lparr> entry_addonId = ''B'', entry_slug = ''beta'', entry_configSchema = Some (JArr []),
              entry_metadata = [], timestamp = Some 10, installed = Some False,
              config = None, overlayUrl = None \<rparr>,
           \<lparr> entry_addonId = ''A'', entry_slug = ''alpha'', entry_configSchema = Some (JArr []),
              entry_metadata = [], timestamp = Some 20, installed = Some False,
              config = None, overlayUrl = None \<rparr>]
   \<and> (\<exists>s t. ksuid_timestamp sample_ext ''B'' = Some s \<and>
             ksuid_timestamp sample_ext ''A'' = Some t \<and> s \<le> t)"
proof -
  let ?es = "[\<lparr> entry_addonId = ''B'', entry_slug = ''beta'', entry_configSchema = Some (JArr []),
              entry_metadata = [], timestamp = Some 10, installed = Some False,
              config = None, overlayUrl = None \<rparr>,
           \<lparr> entry_addonId = ''A'', entry_slug = ''alpha'', entry_configSchema = Some (JArr []),
              entry_metadata = [], timestamp = Some 20, installed = Some False,
              config = None, overlayUrl = None \<rparr>]"
  have run: "getAddonList sample_ext sample_db (sample_req ''/api/v1/addons'' '''' None) = Json ?es"
    by (simp add: handler_defs query_defs sample_defs)
  have len: "Suc 0 < length ?es" by simp
  from getAddonList_sorted_by_timestamp [OF run len] run
  show ?thesis by simp
qed

text \<open>
  C10. Every entry of the array that the addon list answers with has the field
  \<^verbatim>\<open>timestamp\<close>, set to the timestamp that \<^verbatim>\<open>ksuid\<close> parses out of the entry's
  \<^verbatim>\<open>addonId\<close>; nothing is assumed about the user, so this holds with and without one.
\<close>

theorem getAddonList_timestamp_added:
  assumes "getAddonList ext db req = Json entries" and "e \<in> set entries"
  shows "\<exists>t. ksuid_timestamp ext (entry_addonId e) = Some t \<and> timestamp e = Some t"
proof -
  from assms(1) have "getAddonList_try ext db req = Inr entries"
    by (simp add: getAddonList_Json_iff)
  from getAddonList_stamps [OF this assms(2)] show ?thesis
    by (cases "timestamp e") auto
qed

theorem getAddonList_timestamp_added_witness:
  "getAddonList sample_ext sample_db (sample_req ''/api/v1/addons'' '''' None) =
     Json [\<lparr> entry_addonId = ''B'', entry_slug = ''beta'',
              entry_configSchema = Some (JArr []), entry_metadata = [],
              timestamp = Some 10, installed = Some False,
              config = None, overlayUrl = None \<rparr>,
           \<lparr> entry_addonId = ''A'', entry_slug = ''alpha'',
              entry_configSchema = Some (JArr []), entry_metadata = [],
              timestamp = Some 20, installed = Some False,
              config = None, overlayUrl = None \<rparr>]
   \<and> getAddonList sample_ext sample_db (sample_req ''/api/v1/addons'' '''' (Some ''u1'')) =
     Json [\<lparr> entry_addonId = ''B'', entry_slug = ''beta'',
              entry_configSchema = Some (JArr []), entry_metadata = [],
              timestamp = Some 10, installed = Some True,
              config = Some (JObj []), overlayUrl = None \<rparr>,
           \<lparr> entry_addonId = ''A'', entry_slug = ''alpha'',
              entry_configSchema = Some (JArr []), entry_metadata = [],
              timestamp = Some 20, installed = Some True,
              config = Some (JObj []),
              overlayUrl = Some ''https://host/overlay/ov1'' \<rparr>]
   \<and> (\<exists>t. ksuid_timestamp sample_ext ''A'' = Some t \<and> Some (20::int) = Some t)"
proof -
  let ?a = "\<lparr> entry_addonId = ''A'', entry_slug = ''alpha'',
              entry_configSchema = Some (JArr []), entry_metadata = [],
              timestamp = Some 20, installed = Some False,
              config = None, overlayUrl = None \<rparr>"
  let ?b = "\<lparr> entry_addonId = ''B'', entry_slug = ''beta'',
              entry_configSchema = Some (JArr []), entry_metadata = [],
              timestamp = Some 10, installed = Some False,
              config = None, overlayUrl = None \<rparr>"
  let ?a' = "\<lparr> entry_addonId = ''A'', entry_slug = ''alpha'',
               entry_configSchema = Some (JArr []), entry_metadata = [],
               timestamp = Some 20, installed = Some True,
               config = Some (JObj []),
               overlayUrl = Some ''https://host/overlay/ov1'' \<rparr>"
  let ?b' = "\<lparr> entry_addonId = ''B'', entry_slug = ''beta'',
               entry_configSchema = Some (JArr []), entry_metadata = [],
               timestamp = Some 10, installed = Some True,
               config = Some (JObj []), overlayUrl = None \<rparr>"
  have anon: "getAddonList sample_ext sample_db (sample_req ''/api/v1/addons'' '''' None) =
      Json [?b, ?a]"
    by (simp add: handler_defs query_defs sample_defs)
  have user: "getAddonList sample_ext sample_db (sample_req ''/api/v1/addons'' '''' (Some ''u1'')) =
      Json [?b', ?a']"
    by (simp add: handler_defs query_defs sample_defs)
  have "?a \<in> set [?b, ?a]" and "?a' \<in> set [?b', ?a']" by simp_all
  from getAddonList_timestamp_added [OF anon this(1)]
       getAddonList_timestamp_added [OF user this(2)] anon user
  show ?thesis by simp
qed


section \<open>The fields added for a user\<close>

lemma find_Some_member: "find P xs = Some x \<Longrightarrow> x \<in> set xs \<and> P x"
  by (induction xs) (auto split: if_splits)

lemma find_None_none: "find P xs = None \<Longrightarrow> x \<in> set xs \<Longrightarrow> \<not> P x"
  by (induction xs) (auto split: if_splits)

lemma fetchUserAddons_row:
  assumes "getAuthorizedUser ext req = Some uid"
    and "fetchUserAddons ext db req = Inr userAddons"
    and "r \<in> set (twitchUserAddons db)" and "ua_userId r = uid" and "ua_addonId r = a"
  obtains r' where "userAddons a = Some r'" and "r' \<in> set (twitchUserAddons db)"
    and "ua_userId r' = uid" and "ua_addonId r' = a"
proof -
  let ?rows = "rev (filter (\<lambda>r. ua_userId r = uid) (twitchUserAddons db))"
  have eq: "userAddons a = find (\<lambda>r. ua_addonId r = a) ?rows"
    using assms(1,2) by (rule fetchUserAddons_user)
  have "r \<in> set ?rows" using assms(3,4) by simp
  with assms(5) have "find (\<lambda>r. ua_addonId r = a) ?rows \<noteq> None"
    using find_None_none [of "\<lambda>r. ua_addonId r = a" ?rows r] by blast
  then obtain r' where r': "find (\<lambda>r. ua_addonId r = a) ?rows = Some r'" by auto
  from find_Some_member [OF this] have "r' \<in> set (twitchUserAddons db)"
    "ua_userId r' = uid" "ua_addonId r' = a" by auto
  with eq r' that show thesis by simp
qed

lemma getAddonList_installed:
  assumes "getAuthorizedUser ext req = Some uid"
    and "getAddonList_try ext db req = Inr entries" and "e \<in> set entries"
    and "r \<in> set (twitchUserAddons db)" and "ua_userId r = uid"
    and "ua_addonId r = entry_addonId e"
  obtains r' where "r' \<in> set (twitchUserAddons db)" and "ua_userId r' = uid"
    and "ua_addonId r' = entry_addonId e" and "installed e = Some True"
    and "config e = JSON_parse ext (ua_configJSON r')" and "config e \<noteq> None"
    and "overlayUrl e =
           (if ua_overlayId r' \<noteq> '''' then Some (overlayBase ext @ ''/'' @ ua_overlayId r')
            else None)"
proof -
  from assms(2,3) obtain userAddons row where
    f: "fetchUserAddons ext db req = Inr userAddons"
    and e: "getAddonList_entry ext userAddons row = Inr e"
    by (rule getAddonList_member)
  from getAddonList_entry_Inr(1) [OF e] have id: "entry_addonId e = addonId row" .
  from fetchUserAddons_row [OF assms(1) f assms(4,5,6)] obtain r' where
    r': "userAddons (entry_addonId e) = Some r'" "r' \<in> set (twitchUserAddons db)"
        "ua_userId r' = uid" "ua_addonId r' = entry_addonId e"
    by blast
  from r'(1) id have u: "userAddons (addonId row) = Some r'" by simp
  from getAddonList_entry_Inr(6) [OF e] u have "installed e = Some True" by simp
  moreover from getAddonList_entry_Inr(8) [OF e u]
  have "config e = JSON_parse ext (ua_configJSON r')" "config e \<noteq> None"
    "overlayUrl e =
       (if ua_overlayId r' \<noteq> '''' then Some (overlayBase ext @ ''/'' @ ua_overlayId r')
        else None)"
    by simp_all
  ultimately show thesis using r'(2,3,4) that by blast
qed

lemma getAddonById_installed:
  assumes "getAuthorizedUser ext req = Some uid"
    and "getAddonById_try ext db req = Inr body"
    and "r \<in> set (twitchUserAddons db)" and "ua_userId r = uid"
    and "ua_addonId r = entry_addonId body"
  obtains r' where "r' \<in> set (twitchUserAddons db)" and "ua_userId r' = uid"
    and "ua_addonId r' = entry_addonId body" and "installed body = Some True"
    and "config body = JSON_parse ext (ua_configJSON r')" and "config body \<noteq> None"
    and "overlayUrl body =
           Some (if ua_overlayId r' = '''' then ''''
                 else overlayBase ext @ ''/'' @ ua_overlayId r')"
proof -
  let ?P = "\<lambda>r. ua_userId r = uid \<and> ua_addonId r = entry_addonId body"
  from assms(3,4,5) have "find ?P (twitchUserAddons db) \<noteq> None"
    using find_None_none [of ?P "twitchUserAddons db" r] by blast
  then obtain r' where r': "find ?P (twitchUserAddons db) = Some r'" by auto
  from find_Some_member [OF r'] have m: "r' \<in> set (twitchUserAddons db)"
    "ua_userId r' = uid" "ua_addonId r' = entry_addonId body" by auto
  from getAddonById_try_user [OF assms(2,1), unfolded r' option.case]
  have "installed body = Some True \<and> config body = JSON_parse ext (ua_configJSON r') \<and>
    config body \<noteq> None \<and>
    overlayUrl body =
       Some (if ua_overlayId r' = '''' then ''''
             else overlayBase ext @ ''/'' @ ua_overlayId r')"
    .
  with m that show thesis by blast
qed

text \<open>
  C6. When a user is authenticated and has a \<^verbatim>\<open>UserAddon\<close> row for an addon that the
  addon list or the addon lookup returns, the returned record has \<^verbatim>\<open>installed\<close> set to
  true, and there is such a row of that user for that addon of which \<^verbatim>\<open>config\<close> is the
  parsed \<^verbatim>\<open>configJSON\<close> and, when its \<^verbatim>\<open>overlayId\<close> is not empty, of which
  \<^verbatim>\<open>overlayUrl\<close> is the overlay base URL, a slash and that \<^verbatim>\<open>overlayId\<close>.
\<close>

theorem installed_fields_for_user:
  assumes "getAuthorizedUser ext req = Some uid"
  shows "(\<forall>entries e.
            getAddonList ext db req = Json entries \<and> e \<in> set entries \<and>
            (\<exists>r\<in>set (twitchUserAddons db). ua_userId r = uid \<and> ua_addonId r = entry_addonId e)
            \<longrightarrow> installed e = Some True \<and>
                (\<exists>r\<in>set (twitchUserAddons db).
                   ua_userId r = uid \<and> ua_addonId r = entry_addonId e \<and>
                   (\<exists>cfg. JSON_parse ext (ua_configJSON r) = Some cfg \<and> config e = Some cfg) \<and>
                   (ua_overlayId r \<noteq> '''' \<longrightarrow>
                      overlayUrl e = Some (overlayBase ext @ ''/'' @ ua_overlayId r))))
       \<and> (\<forall>body.
            getAddonById ext db req = Json body \<and>
            (\<exists>r\<in>set (twitchUserAddons db). ua_userId r = uid \<and> ua_addonId r = entry_addonId body)
            \<longrightarrow> installed body = Some True \<and>
                (\<exists>r\<in>set (twitchUserAddons db).
                   ua_userId r = uid \<and> ua_addonId r = entry_addonId body \<and>
                   (\<exists>cfg. JSON_parse ext (ua_configJSON r) = Some cfg \<and> config body = Some cfg) \<and>
                   (ua_overlayId r \<noteq> '''' \<longrightarrow>
                      overlayUrl body = Some (overlayBase ext @ ''/'' @ ua_overlayId r))))"
proof (rule conjI; intro allI impI; elim conjE bexE)
  fix entries e r
  assume run: "getAddonList ext db req = Json entries" and mem: "e \<in> set entries"
    and r: "r \<in> set (twitchUserAddons db)" "ua_userId r = uid" "ua_addonId r = entry_addonId e"
  from run have tr: "getAddonList_try ext db req = Inr entries"
    by (simp add: getAddonList_Json_iff)
  from getAddonList_installed [OF assms tr mem r] obtain r' where
    r': "r' \<in> set (twitchUserAddons db)" "ua_userId r' = uid"
        "ua_addonId r' = entry_addonId e" "installed e = Some True"
        "config e = JSON_parse ext (ua_configJSON r')" "config e \<noteq> None"
        "overlayUrl e =
           (if ua_overlayId r' \<noteq> '''' then Some (overlayBase ext @ ''/'' @ ua_overlayId r')
            else None)"
    by blast
  from r'(5,6) obtain cfg where
    "JSON_parse ext (ua_configJSON r') = Some cfg" "config e = Some cfg"
    by (cases "config e") auto
  with r' show "installed e = Some True \<and>
      (\<exists>r\<in>set (twitchUserAddons db).
         ua_userId r = uid \<and> ua_addonId r = entry_addonId e \<and>
         (\<exists>cfg. JSON_parse ext (ua_configJSON r) = Some cfg \<and> config e = Some cfg) \<and>
         (ua_overlayId r \<noteq> '''' \<longrightarrow>
            overlayUrl e = Some (overlayBase ext @ ''/'' @ ua_overlayId r)))"
    by (intro conjI bexI [of _ r']) simp_all
next
  fix body r
  assume run: "getAddonById ext db req = Json body"
    and r: "r \<in> set (twitchUserAddons db)" "ua_userId r = uid"
           "ua_addonId r = entry_addonId body"
  from run have tr: "getAddonById_try ext db req = Inr body"
    by (simp add: getAddonById_Json_iff)
  from getAddonById_installed [OF assms tr r] obtain r' where
    r': "r' \<in> set (twitchUserAddons db)" "ua_userId r' = uid"
        "ua_addonId r' = entry_addonId body" "installed body = Some True"
        "config body = JSON_parse ext (ua_configJSON r')" "config body \<noteq> None"
        "overlayUrl body =
           Some (if ua_overlayId r' = '''' then ''''
                 else overlayBase ext @ ''/'' @ ua_overlayId r')"
    by blast
  from r'(5,6) obtain cfg where
    "JSON_parse ext (ua_configJSON r') = Some cfg" "config body = Some cfg"
    by (cases "config body") auto
  with r' show "installed body = Some True \<and>
      (\<exists>r\<in>set (twitchUserAddons db).
         ua_userId r = uid \<and> ua_addonId r = entry_addonId body \<and>
         (\<exists>cfg. JSON_parse ext (ua_configJSON r) = Some cfg \<and> config body = Some cfg) \<and>
         (ua_overlayId r \<noteq> '''' \<longrightarrow>
            overlayUrl body = Some (overlayBase ext @ ''/'' @ ua_overlayId r)))"
    by (intro conjI bexI [of _ r']) simp_all
qed

theorem installed_fields_for_user_witness:
  "getAuthorizedUser sample_ext (sample_req ''/api/v1/addons/alpha'' ''alpha'' (Some ''u1''))
     = Some ''u1''
   \<and> getAddonList sample_ext sample_db
       (sample_req ''/api/v1/addons/alpha'' ''alpha'' (Some ''u1'')) =
     Json [\<lparr> entry_addonId = ''B'', entry_slug = ''beta'',
              entry_configSchema = Some (JArr []), entry_metadata = [],
              timestamp = Some 10, installed = Some True,
              config = Some (JObj []), overlayUrl = None \<rparr>,
           \<lparr> entry_addonId = ''A'', entry_slug = ''alpha'',
              entry_configSchema = Some (JArr []), entry_metadata = [],
              timestamp = Some 20, installed = Some True,
              config = Some (JObj []),
              overlayUrl = Some ''https://host/overlay/ov1'' \<rparr>]
   \<and> getAddonById sample_ext sample_db
       (sample_req ''/api/v1/addons/alpha'' ''alpha'' (Some ''u1'')) =
     Json \<lparr> entry_addonId = ''A'', entry_slug = ''alpha'',
            entry_configSchema = Some (JArr []), entry_metadata = [],
            timestamp = None, installed = Some True,
            config = Some (JObj []),
            overlayUrl = Some ''https://host/overlay/ov1'' \<rparr>
   \<and> (\<exists>r\<in>set (twitchUserAddons sample_db).
         ua_userId r = ''u1'' \<and> ua_addonId r = ''A'' \<and>
         JSON_parse sample_ext (ua_configJSON r) = Some (JObj []) \<and>
         (ua_overlayId r \<noteq> '''' \<longrightarrow>
            ''https://host/overlay/ov1'' = overlayBase sample_ext @ ''/'' @ ua_overlayId r))"
proof -
  let ?req = "sample_req ''/api/v1/addons/alpha'' ''alpha'' (Some ''u1'')"
  let ?a = "\<lparr> entry_addonId = ''A'', entry_slug = ''alpha'',
              entry_configSchema = Some (JArr []), entry_metadata = [],
              timestamp = Some 20, installed = Some True,
              config = Some (JObj []),
              overlayUrl = Some ''https://host/overlay/ov1'' \<rparr>"
  let ?b = "\<lparr> entry_addonId = ''B'', entry_slug = ''beta'',
              entry_configSchema = Some (JArr []), entry_metadata = [],
              timestamp = Some 10, installed = Some True,
              config = Some (JObj []), overlayUrl = None \<rparr>"
  let ?body = "\<lparr> entry_addonId = ''A'', entry_slug = ''alpha'',
                 entry_configSchema = Some (JArr []), entry_metadata = [],
                 timestamp = None, installed = Some True,
                 config = Some (JObj []),
                 overlayUrl = Some ''https://host/overlay/ov1'' \<rparr>"
  have auth: "getAuthorizedUser sample_ext ?req = Some ''u1''"
    by (simp add: sample_defs)
  have list: "getAddonList sample_ext sample_db ?req = Json [?b, ?a]"
    by (simp add: handler_defs query_defs sample_defs)
  have byid: "getAddonById sample_ext sample_db ?req = Json ?body"
    by (simp add: handler_defs query_defs sample_defs)
  have row: "\<exists>r\<in>set (twitchUserAddons sample_db).
      ua_userId r = ''u1'' \<and> ua_addonId r = entry_addonId ?a"
    by (simp add: sample_defs)
  have row': "\<exists>r\<in>set (twitchUserAddons sample_db).
      ua_userId r = ''u1'' \<and> ua_addonId r = entry_addonId ?body"
    by (simp add: sample_defs)
  note fields = installed_fields_for_user [OF auth, of sample_db]
  from fields [THEN conjunct1, rule_format, of "[?b, ?a]" ?a] list row
  have "\<exists>r\<in>set (twitchUserAddons sample_db).
         ua_userId r = ''u1'' \<and> ua_addonId r = ''A'' \<and>
         JSON_parse sample_ext (ua_configJSON r) = Some (JObj []) \<and>
         (ua_overlayId r \<noteq> '''' \<longrightarrow>
            ''https://host/overlay/ov1'' = overlayBase sample_ext @ ''/'' @ ua_overlayId r)"
    by simp
  moreover from fields [THEN conjunct2, rule_format, of ?body] byid row'
  have "installed ?body = Some True" by simp
  ultimately show ?thesis using auth list byid by simp
qed

text \<open>
  C9. For an authenticated user whose rows for an addon all have the empty string as
  \<^verbatim>\<open>overlayId\<close> (and who has such a row), the two endpoints disagree: the entry of that
  addon in the addon list has no \<^verbatim>\<open>overlayUrl\<close> field, while the addon lookup answers
  with \<^verbatim>\<open>overlayUrl\<close> set to the empty string.
\<close>

theorem overlayUrl_differs_on_empty_overlayId:
  assumes "getAuthorizedUser ext req = Some uid" and "getAuthorizedUser ext req' = Some uid"
    and "\<exists>r\<in>set (twitchUserAddons db). ua_userId r = uid \<and> ua_addonId r = a"
    and "\<forall>r\<in>set (twitchUserAddons db).
           ua_userId r = uid \<and> ua_addonId r = a \<longrightarrow> ua_overlayId r = ''''"
  shows "(\<forall>entries e.
            getAddonList ext db req = Json entries \<and> e \<in> set entries \<and> entry_addonId e = a
            \<longrightarrow> installed e = Some True \<and> overlayUrl e = None)
       \<and> (\<forall>body.
            getAddonById ext db req' = Json body \<and> entry_addonId body = a
            \<longrightarrow> installed body = Some True \<and> overlayUrl body = Some '''')"
proof (rule conjI; intro allI impI; elim conjE)
  fix entries e
  assume run: "getAddonList ext db req = Json entries" and mem: "e \<in> set entries"
    and a: "entry_addonId e = a"
  from assms(3) a obtain r where
    r: "r \<in> set (twitchUserAddons db)" "ua_userId r = uid" "ua_addonId r = entry_addonId e"
    by auto
  from run have tr: "getAddonList_try ext db req = Inr entries"
    by (simp add: getAddonList_Json_iff)
  from getAddonList_installed [OF assms(1) tr mem r] obtain r' where
    r': "r' \<in> set (twitchUserAddons db)" "ua_userId r' = uid"
        "ua_addonId r' = entry_addonId e" "installed e = Some True"
        "overlayUrl e =
           (if ua_overlayId r' \<noteq> '''' then Some (overlayBase ext @ ''/'' @ ua_overlayId r')
            else None)"
    by blast
  from assms(4) r'(1,2,3) a have "ua_overlayId r' = ''''" by simp
  with r'(4,5) show "installed e = Some True \<and> overlayUrl e = None" by simp
next
  fix body
  assume run: "getAddonById ext db req' = Json body" and a: "entry_addonId body = a"
  from assms(3) a obtain r where
    r: "r \<in> set (twitchUserAddons db)" "ua_userId r = uid"
       "ua_addonId r = entry_addonId body"
    by auto
  from run have tr: "getAddonById_try ext db req' = Inr body"
    by (simp add: getAddonById_Json_iff)
  from getAddonById_installed [OF assms(2) tr r] obtain r' where
    r': "r' \<in> set (twitchUserAddons db)" "ua_userId r' = uid"
        "ua_addonId r' = entry_addonId body" "installed body = Some True"
        "overlayUrl body =
           Some (if ua_overlayId r' = '''' then ''''
                 else overlayBase ext @ ''/'' @ ua_overlayId r')"
    by blast
  from assms(4) r'(1,2,3) a have "ua_overlayId r' = ''''" by simp
  with r'(4,5) show "installed body = Some True \<and> overlayUrl body = Some ''''" by simp
qed

theorem overlayUrl_differs_on_empty_overlayId_witness:
  "getAddonList sample_ext sample_db (sample_req ''/api/v1/addons'' '''' (Some ''u1'')) =
     Json [\<lparr> entry_addonId = ''B'', entry_slug = ''beta'',
              entry_configSchema = Some (JArr []), entry_metadata = [],
              timestamp = Some 10, installed = Some True,
              config = Some (JObj []), overlayUrl = None \<rparr>,
           \<lparr> entry_addonId = ''A'', entry_slug = ''alpha'',
              entry_configSchema = Some (JArr []), entry_metadata = [],
              timestamp = Some 20, installed = Some True,
              config = Some (JObj []),
              overlayUrl = Some ''https://host/overlay/ov1'' \<rparr>]
   \<and> getAddonById sample_ext sample_db
       (sample_req ''/api/v1/addons/beta'' ''beta'' (Some ''u1'')) =
     Json \<lparr> entry_addonId = ''B'', entry_slug = ''beta'',
            entry_configSchema = Some (JArr []), entry_metadata = [],
            timestamp = None, installed = Some True,
            config = Some (JObj []), overlayUrl = Some '''' \<rparr>"
proof -
  let ?req = "sample_req ''/api/v1/addons'' '''' (Some ''u1'')"
  let ?req' = "sample_req ''/api/v1/addons/beta'' ''beta'' (Some ''u1'')"
  let ?a = "\<lparr> entry_addonId = ''A'', entry_slug = ''alpha'',
              entry_configSchema = Some (JArr []), entry_metadata = [],
              timestamp = Some 20, installed = Some True,
              config = Some (JObj []),
              overlayUrl = Some ''https://host/overlay/ov1'' \<rparr>"
  let ?b = "\<lparr> entry_addonId = ''B'', entry_slug = ''beta'',
              entry_configSchema = Some (JArr []), entry_metadata = [],
              timestamp = Some 10, installed = Some True,
              config = Some (JObj []), overlayUrl = None \<rparr>"
  let ?body = "\<lparr> entry_addonId = ''B'', entry_slug = ''beta'',
                 entry_configSchema = Some (JArr []), entry_metadata = [],
                 timestamp = None, installed = Some True,
                 config = Some (JObj []), overlayUrl = Some '''' \<rparr>"
  have auth: "getAuthorizedUser sample_ext ?req = Some ''u1''"
    and auth': "getAuthorizedUser sample_ext ?req' = Some ''u1''"
    by (simp_all add: sample_defs)
  have some: "\<exists>r\<in>set (twitchUserAddons sample_db). ua_userId r = ''u1'' \<and> ua_addonId r = ''B''"
    by (simp add: sample_defs)
  have every: "\<forall>r\<in>set (twitchUserAddons sample_db).
      ua_userId r = ''u1'' \<and> ua_addonId r = ''B'' \<longrightarrow> ua_overlayId r = ''''"
    by (simp add: sample_defs)
  have list: "getAddonList sample_ext sample_db ?req = Json [?b, ?a]"
    by (simp add: handler_defs query_defs sample_defs)
  have byid: "getAddonById sample_ext sample_db ?req' = Json ?body"
    by (simp add: handler_defs query_defs sample_defs)
  note differs = overlayUrl_differs_on_empty_overlayId [OF auth auth' some every]
  from differs [THEN conjunct1, rule_format, of "[?b, ?a]" ?b] list
  have "overlayUrl ?b = None" by simp
  moreover from differs [THEN conjunct2, rule_format, of ?body] byid
  have "overlayUrl ?body = Some ''''" by simp
  ultimately show ?thesis using list byid by simp
qed

section \<open>Requests without a user\<close>

lemma getAddonList_anonymous:
  assumes "getAuthorizedUser ext req = None"
    and "getAddonList ext db req = Json entries" and "e \<in> set entries"
  shows "installed e = Some False \<and> config e = None \<and> overlayUrl e = None"
proof -
  from assms(2) have tr: "getAddonList_try ext db req = Inr entries"
    by (simp add: getAddonList_Json_iff)
  from tr assms(3) obtain userAddons row where
    f: "fetchUserAddons ext db req = Inr userAddons"
    and e: "getAddonList_entry ext userAddons row = Inr e"
    by (rule getAddonList_member)
  from f assms(1) have "userAddons = Map.empty"
    by (simp add: fetchUserAddons_anonymous)
  then have none: "userAddons (addonId row) = None" by simp
  from getAddonList_entry_Inr(6,7) [OF e] none show ?thesis by simp
qed

lemma getAddonById_anonymous:
  assumes "getAuthorizedUser ext req = None" and "getAddonById ext db req = Json body"
  shows "installed body = Some False \<and> config body = None \<and> overlayUrl body = None"
  using assms by (simp add: getAddonById_Json_iff getAddonById_try_anonymous)

text \<open>
  C2. On the sample installation a request without a user gets, from the addon list and
  from the addon lookup alike, records to which the field \<^verbatim>\<open>installed\<close> has been
  added, with the value false; only \<^verbatim>\<open>config\<close> and \<^verbatim>\<open>overlayUrl\<close> are absent.
\<close>

theorem installed_added_without_user:
  "getAuthorizedUser sample_ext (sample_req ''/api/v1/addons/beta'' ''beta'' None) = None
   \<and> getAddonList sample_ext sample_db (sample_req ''/api/v1/addons/beta'' ''beta'' None) =
     Json [\<lparr> entry_addonId = ''B'', entry_slug = ''beta'',
              entry_configSchema = Some (JArr []), entry_metadata = [],
              timestamp = Some 10, installed = Some False,
              config = None, overlayUrl = None \<rparr>,
           \<lparr> entry_addonId = ''A'', entry_slug = ''alpha'',
              entry_configSchema = Some (JArr []), entry_metadata = [],
              timestamp = Some 20, installed = Some False,
              config = None, overlayUrl = None \<rparr>]
   \<and> getAddonById sample_ext sample_db (sample_req ''/api/v1/addons/beta'' ''beta'' None) =
     Json \<lparr> entry_addonId = ''B'', entry_slug = ''beta'',
            entry_configSchema = Some (JArr []), entry_metadata = [],
            timestamp = None, installed = Some False,
            config = None, overlayUrl = None \<rparr>"
  by (simp add: handler_defs query_defs sample_defs)


section \<open>Lookup by slug or identifier\<close>

lemma getAddonById_try_returns:
  "(\<exists>body. getAddonById_try ext db req = Inr body) \<longleftrightarrow>
     twitchAddon_fault db = None \<and>
     (\<exists>a. find (\<lambda>a. slug a = params_key req \<or> addonId a = params_key req) (twitchAddon db)
            = Some a \<and>
          (\<exists>schema. parse_json_column ext (configSchema a) = Inr schema) \<and>
          (case getAuthorizedUser ext req of
             None \<Rightarrow> True
           | Some uid \<Rightarrow>
               twitchUserAddons_fault db = None \<and>
               (case find (\<lambda>r. ua_userId r = uid \<and> ua_addonId r = addonId a)
                       (twitchUserAddons db) of
                  None \<Rightarrow> True
                | Some r \<Rightarrow> (\<exists>cfg. parse_json ext (ua_configJSON r) = Inr cfg))))"
  by (auto simp: getAddonById_try_def twitchAddon_findFirst_def twitchUserAddons_findUnique_def
        prisma_result_def Let_def
      split: option.splits sum.splits)

text \<open>
  C4. When the query on the addons is answered, the addon lookup answers with the 404 JSON
  body exactly when no addon has the key as its slug or as its \<^verbatim>\<open>addonId\<close>; a successful
  response carries the columns of the first addon that matches the key by either field,
  with the parsed \<^verbatim>\<open>configSchema\<close>; and the lookup does answer successfully when such an
  addon exists, its \<^verbatim>\<open>configSchema\<close> parses and, for a logged-in user, the query for
  the user's row is answered and the row's \<^verbatim>\<open>configJSON\<close> parses.
\<close>

theorem getAddonById_by_slug_or_id:
  "(twitchAddon_fault db = None \<longrightarrow>
      ((\<exists>m. getAddonById ext db req = Json404 m) \<longleftrightarrow>
       \<not> (\<exists>a\<in>set (twitchAddon db). slug a = params_key req \<or> addonId a = params_key req)))
   \<and> (\<forall>body. getAddonById ext db req = Json body \<longrightarrow>
        (\<exists>a\<in>set (twitchAddon db).
           (slug a = params_key req \<or> addonId a = params_key req) \<and>
           find (\<lambda>a. slug a = params_key req \<or> addonId a = params_key req) (twitchAddon db)
             = Some a \<and>
           entry_addonId body = addonId a \<and> entry_slug body = slug a \<and>
           entry_metadata body = metadata a \<and>
           (\<exists>schema. parse_json_column ext (configSchema a) = Inr schema \<and>
                     entry_configSchema body = Some schema)))
   \<and> ((\<exists>body. getAddonById ext db req = Json body) \<longleftrightarrow>
        twitchAddon_fault db = None \<and>
        (\<exists>a. find (\<lambda>a. slug a = params_key req \<or> addonId a = params_key req) (twitchAddon db)
               = Some a \<and>
             (\<exists>schema. parse_json_column ext (configSchema a) = Inr schema) \<and>
             (case getAuthorizedUser ext req of
                None \<Rightarrow> True
              | Some uid \<Rightarrow>
                  twitchUserAddons_fault db = None \<and>
                  (case find (\<lambda>r. ua_userId r = uid \<and> ua_addonId r = addonId a)
                          (twitchUserAddons db) of
                     None \<Rightarrow> True
                   | Some r \<Rightarrow> (\<exists>cfg. parse_json ext (ua_configJSON r) = Inr cfg)))))"
proof (intro conjI impI allI)
  assume ok: "twitchAddon_fault db = None"
  show "(\<exists>m. getAddonById ext db req = Json404 m) \<longleftrightarrow>
       \<not> (\<exists>a\<in>set (twitchAddon db). slug a = params_key req \<or> addonId a = params_key req)"
    by (auto simp: getAddonById_404_iff getAddonById_try_NotFound_iff [OF ok] find_None_iff)
next
  fix body
  assume "getAddonById ext db req = Json body"
  then have "getAddonById_try ext db req = Inr body"
    by (simp add: getAddonById_Json_iff)
  then obtain a schema where
    a: "find (\<lambda>a. slug a = params_key req \<or> addonId a = params_key req) (twitchAddon db)
          = Some a"
    and b: "entry_addonId body = addonId a" "entry_slug body = slug a"
      "entry_metadata body = metadata a"
      "parse_json_column ext (configSchema a) = Inr schema"
      "entry_configSchema body = Some schema"
    by (rule getAddonById_try_Inr)
  from find_Some_member [OF a] have "a \<in> set (twitchAddon db)"
    "slug a = params_key req \<or> addonId a = params_key req" by simp_all
  with a b show "\<exists>a\<in>set (twitchAddon db).
           (slug a = params_key req \<or> addonId a = params_key req) \<and>
           find (\<lambda>a. slug a = params_key req \<or> addonId a = params_key req) (twitchAddon db)
             = Some a \<and>
           entry_addonId body = addonId a \<and> entry_slug body = slug a \<and>
           entry_metadata body = metadata a \<and>
           (\<exists>schema. parse_json_column ext (configSchema a) = Inr schema \<and>
                     entry_configSchema body = Some schema)"
    by (intro bexI [of _ a]) simp_all
next
  show "(\<exists>body. getAddonById ext db req = Json body) \<longleftrightarrow>
        twitchAddon_fault db = None \<and>
        (\<exists>a. find (\<lambda>a. slug a = params_key req \<or> addonId a = params_key req) (twitchAddon db)
               = Some a \<and>
             (\<exists>schema. parse_json_column ext (configSchema a) = Inr schema) \<and>
             (case getAuthorizedUser ext req of
                None \<Rightarrow> True
              | Some uid \<Rightarrow>
                  twitchUserAddons_fault db = None \<and>
                  (case find (\<lambda>r. ua_userId r = uid \<and> ua_addonId r = addonId a)
                          (twitchUserAddons db) of
                     None \<Rightarrow> True
                   | Some r \<Rightarrow> (\<exists>cfg. parse_json ext (ua_configJSON r) = Inr cfg))))"
    unfolding getAddonById_Json_iff by (rule getAddonById_try_returns)
qed

theorem getAddonById_by_slug_or_id_witness:
  "getAddonById sample_ext sample_db (sample_req ''/api/v1/addons/beta'' ''beta'' None) =
     Json \<lparr> entry_addonId = ''B'', entry_slug = ''beta'',
            entry_configSchema = Some (JArr []), entry_metadata = [],
            timestamp = None, installed = Some False,
            config = None, overlayUrl = None \<rparr>
   \<and> getAddonById sample_ext sample_db (sample_req ''/api/v1/addons/B'' ''B'' None) =
     Json \<lparr> entry_addonId = ''B'', entry_slug = ''beta'',
            entry_configSchema = Some (JArr []), entry_metadata = [],
            timestamp = None, installed = Some False,
            config = None, overlayUrl = None \<rparr>
   \<and> (\<exists>m. getAddonById sample_ext sample_db (sample_req ''/api/v1/addons/C'' ''C'' None) =
          Json404 m)
   \<and> (\<exists>a\<in>set (twitchAddon sample_db). slug a = ''beta'' \<or> addonId a = ''beta'')
   \<and> \<not> (\<exists>a\<in>set (twitchAddon sample_db). slug a = ''C'' \<or> addonId a = ''C'')"
proof -
  let ?body = "\<lparr> entry_addonId = ''B'', entry_slug = ''beta'',
            entry_configSchema = Some (JArr []), entry_metadata = [],
            timestamp = None, installed = Some False,
            config = None, overlayUrl = None \<rparr>"
  have ok: "twitchAddon_fault sample_db = None"
    by (simp add: sample_defs)
  have slug: "getAddonById sample_ext sample_db
      (sample_req ''/api/v1/addons/beta'' ''beta'' None) = Json ?body"
    and ident: "getAddonById sample_ext sample_db
      (sample_req ''/api/v1/addons/B'' ''B'' None) = Json ?body"
    by (simp_all add: handler_defs query_defs sample_defs)
  have miss: "\<not> (\<exists>a\<in>set (twitchAddon sample_db).
      slug a = params_key (sample_req ''/api/v1/addons/C'' ''C'' None) \<or>
      addonId a = params_key (sample_req ''/api/v1/addons/C'' ''C'' None))"
    by (simp add: sample_defs)
  have p: "params_key (sample_req u k c) = k" for u k c
    by (simp add: sample_req_def)
  note lookup = getAddonById_by_slug_or_id [of sample_db sample_ext]
  from lookup [of "sample_req ''/api/v1/addons/C'' ''C'' None", THEN conjunct1, rule_format, OF ok]
    miss
  have "\<exists>m. getAddonById sample_ext sample_db (sample_req ''/api/v1/addons/C'' ''C'' None) =
          Json404 m"
    by blast
  moreover
  from lookup [of "sample_req ''/api/v1/addons/beta'' ''beta'' None",
      THEN conjunct2, THEN conjunct1, rule_format, OF slug]
  have "\<exists>a\<in>set (twitchAddon sample_db). slug a = ''beta'' \<or> addonId a = ''beta''"
    unfolding p by blast
  ultimately show ?thesis using slug ident miss unfolding p by simp
qed

section \<open>The body of an overlay\<close>

lemma getOverlayInfo_try_body:
  assumes "getOverlayInfo_try ext db req = Inr body"
  obtains row a schema where
    "filter (\<lambda>r. ua_overlayId r = params_overlayId req) (twitchUserAddons db) = [row]"
    and "find (\<lambda>a. addonId a = ua_addonId row) (twitchAddon db) = Some a"
    and "body_userId body = ua_userId row" and "body_addonId body = ua_addonId row"
    and "body_overlayId body = ua_overlayId row"
    and "parse_json ext (ua_configJSON row) = Inr (body_configJSON body)"
    and "parse_json_column ext (configSchema a) = Inr schema"
    and "body_addon body =
           \<lparr> entry_addonId = addonId a, entry_slug = slug a,
             entry_configSchema = Some schema, entry_metadata = metadata a,
             timestamp = None, installed = None, config = None, overlayUrl = None \<rparr>"
    and "body_owner body = find (\<lambda>u. userId u = ua_userId row) (twitchUser db)"
proof -
  from getOverlayInfo_try_Inr [OF assms] obtain row where
    ok: "twitchUserAddons_fault db = None"
    and row: "filter (\<lambda>r. ua_overlayId r = params_overlayId req) (twitchUserAddons db) = [row]"
    by blast
  from assms ok row show thesis
    by (auto simp: getOverlayInfo_try_def twitchUserAddons_findMany_include_def
          prisma_result_def include_addon_owner_def
        split: option.splits sum.splits intro!: that)
qed

lemma parse_json_ignores_user [simp]:
  "parse_json (ext\<lparr>getAuthorizedUser := g\<rparr>) s = parse_json ext s"
  by (simp add: parse_json_def)

lemma parse_json_column_ignores_user [simp]:
  "parse_json_column (ext\<lparr>getAuthorizedUser := g\<rparr>) col = parse_json_column ext col"
  by (cases col) (simp_all add: parse_json_column_def)

lemma getOverlayInfo_try_ignores_user:
  "getOverlayInfo_try (ext\<lparr>getAuthorizedUser := g\<rparr>) db (req\<lparr>cookie := c\<rparr>) =
     getOverlayInfo_try ext db req"
  by (simp add: getOverlayInfo_try_def
      cong: sum.case_cong list.case_cong option.case_cong prod.case_cong)
lemma parse_json_Inr_iff: "parse_json ext s = Inr v \<longleftrightarrow> JSON_parse ext s = Some v"
  by (simp add: parse_json_def split: option.splits)

lemma parse_json_Inl_iff:
  "parse_json ext s = Inl e \<longleftrightarrow> JSON_parse ext s = None \<and> e = SyntaxError"
  by (auto simp: parse_json_def split: option.splits)

lemma parse_json_column_Inr_iff:
  "parse_json_column ext col = Inr v \<longleftrightarrow>
     JSON_parse ext (case col of None \<Rightarrow> ''undefined'' | Some s \<Rightarrow> s) = Some v"
  by (cases col) (simp_all add: parse_json_column_def parse_json_Inr_iff)

lemma parse_json_column_Inl_iff:
  "parse_json_column ext col = Inl e \<longleftrightarrow>
     JSON_parse ext (case col of None \<Rightarrow> ''undefined'' | Some s \<Rightarrow> s) = None \<and>
     e = SyntaxError"
  by (cases col) (simp_all add: parse_json_column_def parse_json_Inl_iff)

lemma getOverlayInfo_try_one_row:
  assumes "twitchUserAddons_fault db = None"
    and "filter (\<lambda>r. ua_overlayId r = params_overlayId req) (twitchUserAddons db) = [row]"
  shows "getOverlayInfo_try ext db req =
     (case find (\<lambda>a. addonId a = ua_addonId row) (twitchAddon db) of
        None \<Rightarrow> Inl TypeError
      | Some a \<Rightarrow>
          (case JSON_parse ext (case configSchema a of None \<Rightarrow> ''undefined'' | Some s \<Rightarrow> s) of
             None \<Rightarrow> Inl SyntaxError
           | Some schema \<Rightarrow>
               (case JSON_parse ext (ua_configJSON row) of
                  None \<Rightarrow> Inl SyntaxError
                | Some cfg \<Rightarrow>
                    Inr \<lparr> body_userId = ua_userId row, body_addonId = ua_addonId row,
                          body_overlayId = ua_overlayId row, body_configJSON = cfg,
                          body_addon =
                            \<lparr> entry_addonId = addonId a, entry_slug = slug a,
                              entry_configSchema = Some schema,
                              entry_metadata = metadata a, timestamp = None,
                              installed = None, config = None, overlayUrl = None \<rparr>,
                          body_owner =
                            find (\<lambda>u. userId u = ua_userId row) (twitchUser db) \<rparr>)))"
  using assms
  by (auto simp: getOverlayInfo_try_def twitchUserAddons_findMany_include_def
        prisma_result_def include_addon_owner_def parse_json_def parse_json_column_def
      split: option.splits sum.splits)

text \<open>
  C5. The overlay lookup does not consult the authentication: its response is the same
  whatever \<^verbatim>\<open>getAuthorizedUser\<close> would answer and whatever cookie the request carries.
  A successful response is built from the one row with the requested \<^verbatim>\<open>overlayId\<close>:
  it has the row's columns, with \<^verbatim>\<open>configJSON\<close> replaced by what \<^verbatim>\<open>JSON.parse\<close>
  makes of that column, the addon that the row names, with \<^verbatim>\<open>configSchema\<close> replaced
  by what \<^verbatim>\<open>JSON.parse\<close> makes of that column, and the user that the row names as
  owner. Conversely, when exactly one row matches, its addon exists and both columns
  parse, the response is that body.
\<close>

theorem getOverlayInfo_public_body:
  "getOverlayInfo (ext\<lparr>getAuthorizedUser := g\<rparr>) db (req\<lparr>cookie := c\<rparr>) =
     getOverlayInfo ext db req
   \<and> (\<forall>body. getOverlayInfo ext db req = Json body \<longrightarrow>
        (\<exists>row a schema.
           filter (\<lambda>r. ua_overlayId r = params_overlayId req) (twitchUserAddons db) = [row] \<and>
           find (\<lambda>a. addonId a = ua_addonId row) (twitchAddon db) = Some a \<and>
           body_userId body = ua_userId row \<and> body_addonId body = ua_addonId row \<and>
           body_overlayId body = ua_overlayId row \<and>
           JSON_parse ext (ua_configJSON row) = Some (body_configJSON body) \<and>
           JSON_parse ext (case configSchema a of None \<Rightarrow> ''undefined'' | Some s \<Rightarrow> s)
             = Some schema \<and>
           body_addon body =
             \<lparr> entry_addonId = addonId a, entry_slug = slug a,
               entry_configSchema = Some schema, entry_metadata = metadata a,
               timestamp = None, installed = None, config = None, overlayUrl = None \<rparr> \<and>
           body_owner body = find (\<lambda>u. userId u = ua_userId row) (twitchUser db)))
   \<and> (\<forall>row a s schema cfg.
        twitchUserAddons_fault db = None \<and>
        filter (\<lambda>r. ua_overlayId r = params_overlayId req) (twitchUserAddons db) = [row] \<and>
        find (\<lambda>a. addonId a = ua_addonId row) (twitchAddon db) = Some a \<and>
        configSchema a = Some s \<and> JSON_parse ext s = Some schema \<and>
        JSON_parse ext (ua_configJSON row) = Some cfg
        \<longrightarrow> getOverlayInfo ext db req =
              Json \<lparr> body_userId = ua_userId row, body_addonId = ua_addonId row,
                     body_overlayId = ua_overlayId row, body_configJSON = cfg,
                     body_addon =
                       \<lparr> entry_addonId = addonId a, entry_slug = slug a,
                         entry_configSchema = Some schema, entry_metadata = metadata a,
                         timestamp = None, installed = None, config = None,
                         overlayUrl = None \<rparr>,
                     body_owner = find (\<lambda>u. userId u = ua_userId row) (twitchUser db) \<rparr>)"
proof (intro conjI allI impI)
  show "getOverlayInfo (ext\<lparr>getAuthorizedUser := g\<rparr>) db (req\<lparr>cookie := c\<rparr>) =
     getOverlayInfo ext db req"
    by (simp add: getOverlayInfo_def getOverlayInfo_try_ignores_user)
next
  fix body
  assume "getOverlayInfo ext db req = Json body"
  then have "getOverlayInfo_try ext db req = Inr body"
    by (simp add: getOverlayInfo_Json_iff)
  then obtain row a schema where
    "filter (\<lambda>r. ua_overlayId r = params_overlayId req) (twitchUserAddons db) = [row]"
    "find (\<lambda>a. addonId a = ua_addonId row) (twitchAddon db) = Some a"
    "body_userId body = ua_userId row" "body_addonId body = ua_addonId row"
    "body_overlayId body = ua_overlayId row"
    "parse_json ext (ua_configJSON row) = Inr (body_configJSON body)"
    "parse_json_column ext (configSchema a) = Inr schema"
    "body_addon body =
       \<lparr> entry_addonId = addonId a, entry_slug = slug a,
         entry_configSchema = Some schema, entry_metadata = metadata a,
         timestamp = None, installed = None, config = None, overlayUrl = None \<rparr>"
    "body_owner body = find (\<lambda>u. userId u = ua_userId row) (twitchUser db)"
    by (rule getOverlayInfo_try_body)
  then show "\<exists>row a schema.
           filter (\<lambda>r. ua_overlayId r = params_overlayId req) (twitchUserAddons db) = [row] \<and>
           find (\<lambda>a. addonId a = ua_addonId row) (twitchAddon db) = Some a \<and>
           body_userId body = ua_userId row \<and> body_addonId body = ua_addonId row \<and>
           body_overlayId body = ua_overlayId row \<and>
           JSON_parse ext (ua_configJSON row) = Some (body_configJSON body) \<and>
           JSON_parse ext (case configSchema a of None \<Rightarrow> ''undefined'' | Some s \<Rightarrow> s)
             = Some schema \<and>
           body_addon body =
             \<lparr> entry_addonId = addonId a, entry_slug = slug a,
               entry_configSchema = Some schema, entry_metadata = metadata a,
               timestamp = None, installed = None, config = None, overlayUrl = None \<rparr> \<and>
           body_owner body = find (\<lambda>u. userId u = ua_userId row) (twitchUser db)"
    unfolding parse_json_Inr_iff parse_json_column_Inr_iff by blast
next
  fix row a s schema cfg
  assume h: "twitchUserAddons_fault db = None \<and>
        filter (\<lambda>r. ua_overlayId r = params_overlayId req) (twitchUserAddons db) = [row] \<and>
        find (\<lambda>a. addonId a = ua_addonId row) (twitchAddon db) = Some a \<and>
        configSchema a = Some s \<and> JSON_parse ext s = Some schema \<and>
        JSON_parse ext (ua_configJSON row) = Some cfg"
  then have "twitchUserAddons_fault db = None"
    and "filter (\<lambda>r. ua_overlayId r = params_overlayId req) (twitchUserAddons db) = [row]"
    by simp_all
  from getOverlayInfo_try_one_row [OF this, of ext] h
  show "getOverlayInfo ext db req =
              Json \<lparr> body_userId = ua_userId row, body_addonId = ua_addonId row,
                     body_overlayId = ua_overlayId row, body_configJSON = cfg,
                     body_addon =
                       \<lparr> entry_addonId = addonId a, entry_slug = slug a,
                         entry_configSchema = Some schema, entry_metadata = metadata a,
                         timestamp = None, installed = None, config = None,
                         overlayUrl = None \<rparr>,
                     body_owner = find (\<lambda>u. userId u = ua_userId row) (twitchUser db) \<rparr>"
    by (simp add: getOverlayInfo_def)
qed

theorem getOverlayInfo_public_body_witness:
  "getOverlayInfo sample_ext sample_db (sample_req ''/api/v1/overlay/ov1'' ''ov1'' None) =
     Json \<lparr> body_userId = ''u1'', body_addonId = ''A'', body_overlayId = ''ov1'',
            body_configJSON = JObj [],
            body_addon = \<lparr> entry_addonId = ''A'', entry_slug = ''alpha'',
              entry_configSchema = Some (JArr []), entry_metadata = [], timestamp = None,
              installed = None, config = None, overlayUrl = None \<rparr>,
            body_owner = Some \<lparr> userId = ''u1'', profile = [] \<rparr> \<rparr>
   \<and> (\<exists>row a. filter (\<lambda>r. ua_overlayId r = ''ov1'') (twitchUserAddons sample_db) = [row] \<and>
         find (\<lambda>a. addonId a = ua_addonId row) (twitchAddon sample_db) = Some a \<and>
         ua_userId row = ''u1'' \<and> ua_addonId row = ''A'' \<and>
         JSON_parse sample_ext (ua_configJSON row) = Some (JObj []) \<and>
         JSON_parse sample_ext (case configSchema a of None \<Rightarrow> ''undefined'' | Some s \<Rightarrow> s)
           = Some (JArr []))"
proof -
  let ?req = "sample_req ''/api/v1/overlay/ov1'' ''ov1'' None"
  let ?row = "\<lparr> ua_userId = ''u1'', ua_addonId = ''A'', ua_overlayId = ''ov1'',
                ua_configJSON = ''{}'' \<rparr>"
  let ?a = "\<lparr> addonId = ''A'', slug = ''alpha'', configSchema = Some ''[]'', metadata = [] \<rparr>"
  let ?body = "\<lparr> body_userId = ''u1'', body_addonId = ''A'', body_overlayId = ''ov1'',
            body_configJSON = JObj [],
            body_addon = \<lparr> entry_addonId = ''A'', entry_slug = ''alpha'',
              entry_configSchema = Some (JArr []), entry_metadata = [], timestamp = None,
              installed = None, config = None, overlayUrl = None \<rparr>,
            body_owner = Some \<lparr> userId = ''u1'', profile = [] \<rparr> \<rparr>"
  have given: "twitchUserAddons_fault sample_db = None \<and>
      filter (\<lambda>r. ua_overlayId r = params_overlayId ?req) (twitchUserAddons sample_db) = [?row] \<and>
      find (\<lambda>a. addonId a = ua_addonId ?row) (twitchAddon sample_db) = Some ?a \<and>
      configSchema ?a = Some ''[]'' \<and> JSON_parse sample_ext ''[]'' = Some (JArr []) \<and>
      JSON_parse sample_ext (ua_configJSON ?row) = Some (JObj [])"
    by (simp add: sample_defs)
  note body = getOverlayInfo_public_body [where ext = sample_ext and db = sample_db
      and req = ?req]
  from body [THEN conjunct2, THEN conjunct2, rule_format, OF given]
  have run: "getOverlayInfo sample_ext sample_db ?req = Json ?body"
    by (simp add: sample_defs)
  have p: "params_overlayId ?req = ''ov1''"
    by (simp add: sample_req_def)
  from body [THEN conjunct2, THEN conjunct1, rule_format, OF run]
  have "\<exists>row a. filter (\<lambda>r. ua_overlayId r = ''ov1'') (twitchUserAddons sample_db) = [row] \<and>
         find (\<lambda>a. addonId a = ua_addonId row) (twitchAddon sample_db) = Some a \<and>
         ua_userId row = ''u1'' \<and> ua_addonId row = ''A'' \<and>
         JSON_parse sample_ext (ua_configJSON row) = Some (JObj []) \<and>
         JSON_parse sample_ext (case configSchema a of None \<Rightarrow> ''undefined'' | Some s \<Rightarrow> s)
           = Some (JArr [])"
    unfolding p by auto
  with run show ?thesis by simp
qed


section \<open>Errors\<close>

lemma path_segments_overlay_slash:
  "path_segments ''/api/v1/overlay/'' = Some [''api'', ''v1'', ''overlay'']"
  by (simp add: path_segments_def)

lemma path_segments_overlay:
  "path_segments ''/api/v1/overlay'' = Some [''api'', ''v1'', ''overlay'']"
  by (simp add: path_segments_def)

lemma dispatch_overlay_with_id:
  "url req = ''/api/v1/overlay/ov1'' \<Longrightarrow>
     dispatch (addOverlayAPIs []) ext db req =
       Some (getOverlayInfo ext db (req\<lparr>params_overlayId := ''ov1''\<rparr>))"
  by (simp add: addOverlayAPIs_def path_segments_def set_param_def)

text \<open>
  C8. The handler of the route \<^verbatim>\<open>/api/v1/overlay/\<close> throws
  \<^verbatim>\<open>NotFound('invalid API endpoint')\<close> on every request, so its response is always what
  the shared responder makes of that exception, the 404 JSON body; and a request for
  \<^verbatim>\<open>/api/v1/overlay/\<close>, with or without the trailing slash, is routed to this handler.
\<close>

theorem reportInvalidAPI_always_404:
  "reportInvalidAPI_try db req = Inl (NotFound ''invalid API endpoint'')
   \<and> reportInvalidAPI ext db req = dbErrResponse (NotFound ''invalid API endpoint'')
   \<and> reportInvalidAPI ext db req = Json404 ''invalid API endpoint''
   \<and> (url req = ''/api/v1/overlay/'' \<or> url req = ''/api/v1/overlay'' \<longrightarrow>
        dispatch (addOverlayAPIs []) ext db req = Some (Json404 ''invalid API endpoint''))"
proof (intro conjI impI)
  show "reportInvalidAPI_try db req = Inl (NotFound ''invalid API endpoint'')"
    by (simp add: reportInvalidAPI_try_def)
  show "reportInvalidAPI ext db req = dbErrResponse (NotFound ''invalid API endpoint'')"
    by (simp add: reportInvalidAPI_def reportInvalidAPI_try_def)
  show r: "reportInvalidAPI ext db req = Json404 ''invalid API endpoint''" for ext db req
    by (simp add: reportInvalidAPI_def reportInvalidAPI_try_def)
  assume "url req = ''/api/v1/overlay/'' \<or> url req = ''/api/v1/overlay''"
  then have "path_segments (url req) = Some [''api'', ''v1'', ''overlay'']"
    using path_segments_overlay_slash path_segments_overlay by auto
  then show "dispatch (addOverlayAPIs []) ext db req = Some (Json404 ''invalid API endpoint'')"
    by (simp add: addOverlayAPIs_def r)
qed

theorem reportInvalidAPI_always_404_witness:
  "dispatch (addOverlayAPIs []) sample_ext sample_db (sample_req ''/api/v1/overlay/'' '''' None)
     = Some (Json404 ''invalid API endpoint'')
   \<and> dispatch (addOverlayAPIs []) sample_ext sample_db (sample_req ''/api/v1/overlay'' '''' None)
     = Some (Json404 ''invalid API endpoint'')"
proof -
  have "url (sample_req ''/api/v1/overlay/'' '''' None) = ''/api/v1/overlay/'' \<or>
        url (sample_req ''/api/v1/overlay/'' '''' None) = ''/api/v1/overlay''"
    and "url (sample_req ''/api/v1/overlay'' '''' None) = ''/api/v1/overlay/'' \<or>
        url (sample_req ''/api/v1/overlay'' '''' None) = ''/api/v1/overlay''"
    by (simp_all add: sample_req_def)
  with reportInvalidAPI_always_404
         [of sample_db "sample_req ''/api/v1/overlay/'' '''' None" sample_ext]
       reportInvalidAPI_always_404
         [of sample_db "sample_req ''/api/v1/overlay'' '''' None" sample_ext]
  show ?thesis by blast
qed


section \<open>Every throw reaches the responder\<close>












end
